theory Spec2Isabelle
  imports Complex_Main
begin

section \<open>Event times and errors\<close>

text \<open>
  The scoring code of \<^verbatim>\<open>mir_eval_modified/offset.py\<close> works on numpy arrays of
  floating-point event times. A float is modelled as a finite value, idealised as a real
  number (rounding is not modelled), or one of the three non-finite values.
\<close>

datatype float64 = Finite real | PosInf | NegInf | NaN

text \<open>The exceptions the modelled code can raise.\<close>

datatype error = InvalidInput | IndexError | ZeroDivisionError

text \<open>Sequencing of fallible steps: the first exception ends the computation.\<close>

definition bind_err :: "error + 'a \<Rightarrow> ('a \<Rightarrow> error + 'b) \<Rightarrow> error + 'b" where
  "bind_err m k = (case m of Inl e \<Rightarrow> Inl e | Inr x \<Rightarrow> k x)"

text \<open>\<^verbatim>\<open>MAX_TIME = 30000.\<close> (offset.py, line 32).\<close>

definition MAX_TIME :: real where
  "MAX_TIME = 30000"

text \<open>
  Modelled from the spec: \<^verbatim>\<open>util_mod.validate_events\<close> is not among the sources
  (only its call in \<^verbatim>\<open>validate\<close> is). Section 4.2 of the specification: scoring
  "fails with InvalidInput when any event time is negative, non-finite, or exceeds a
  configured maximum horizon"; nothing is clamped.
\<close>

fun event_ok :: "real \<Rightarrow> float64 \<Rightarrow> bool" where
  "event_ok max_time (Finite r) = (0 \<le> r \<and> r \<le> max_time)"
| "event_ok max_time PosInf = False"
| "event_ok max_time NegInf = False"
| "event_ok max_time NaN = False"

text \<open>
  Modelled from the spec: \<^verbatim>\<open>util_mod.validate_events\<close>, absent from the sources, raises
  as soon as one event time of the array is not valid in the sense above.
\<close>

definition validate_events :: "float64 list \<Rightarrow> real \<Rightarrow> error + unit" where
  "validate_events events max_time =
     (if list_all (event_ok max_time) events then Inr () else Inl InvalidInput)"

text \<open>
  \<^verbatim>\<open>validate\<close> (offset.py, lines 36-54). The two \<^verbatim>\<open>warnings.warn\<close> calls do not
  interrupt the function; the warnings emitted are returned as a list of messages.
\<close>

definition validate :: "float64 list \<Rightarrow> float64 list \<Rightarrow> error + string list" where
  "validate reference_offsets estimated_offsets =
     (let w1 = (if length reference_offsets = 0 then [''Reference onsets are empty.''] else []);
          w2 = (if length estimated_offsets = 0 then [''Estimated onsets are empty.''] else [])
      in bind_err (validate_events reference_offsets MAX_TIME) (\<lambda>_.
         bind_err (validate_events estimated_offsets MAX_TIME) (\<lambda>_.
         Inr (w1 @ w2))))"

text \<open>
  The finite value of a validated event time. It is only applied to arrays that passed
  \<^const>\<open>validate\<close>, whose entries are all finite.
\<close>

fun the_finite :: "float64 \<Rightarrow> real" where
  "the_finite (Finite r) = r"

section \<open>Base window matching\<close>

text \<open>
  Modelled from the spec: \<^verbatim>\<open>util_mod.match_events\<close> is not among the sources (only
  its call in \<^verbatim>\<open>f_measure\<close> is). Section 4.1 of the specification: "for each
  reference event, pair it with the closest not-yet-used estimated event within
  \<open>window\<close>, ties broken by smallest time difference then by earliest estimated index.
  No event is matched twice (enforced by removing matched indices from the candidate
  pool)". A match is a pair (reference index, estimated index).
\<close>

definition candidates :: "real \<Rightarrow> real list \<Rightarrow> nat list \<Rightarrow> real \<Rightarrow> (nat \<times> real) list" where
  "candidates r estimated used window =
     filter (\<lambda>(j, e). j \<notin> set used \<and> \<bar>r - e\<bar> \<le> window) (enumerate 0 estimated)"

fun closest :: "real \<Rightarrow> nat \<times> real \<Rightarrow> (nat \<times> real) list \<Rightarrow> nat \<times> real" where
  "closest r b [] = b"
| "closest r b (c # cs) = closest r (if \<bar>r - snd c\<bar> < \<bar>r - snd b\<bar> then c else b) cs"

fun match_loop :: "(nat \<times> real) list \<Rightarrow> real list \<Rightarrow> real \<Rightarrow> nat list \<Rightarrow> (nat \<times> nat) list" where
  "match_loop [] estimated window used = []"
| "match_loop ((i, r) # refs) estimated window used =
     (case candidates r estimated used window of
        [] \<Rightarrow> match_loop refs estimated window used
      | c # cs \<Rightarrow>
          (let j = fst (closest r c cs)
           in (i, j) # match_loop refs estimated window (j # used)))"

text \<open>
  Modelled from the spec: \<^verbatim>\<open>util_mod.match_events\<close>, absent from the sources, as the
  greedy scan of section 4.1 over the reference events in their order.
\<close>

definition match_events :: "real list \<Rightarrow> real list \<Rightarrow> real \<Rightarrow> (nat \<times> nat) list" where
  "match_events ref est window = match_loop (enumerate 0 ref) est window []"

section \<open>Scoring with the duration-relative collar\<close>

text \<open>
  numpy indexing of an array by a list of indices (\<^verbatim>\<open>estimated_offsets[matched_estimated]\<close>):
  an index outside the array raises \<^verbatim>\<open>IndexError\<close>.
\<close>

definition np_take :: "real list \<Rightarrow> nat list \<Rightarrow> error + real list" where
  "np_take xs idxs =
     (if list_all (\<lambda>i. i < length xs) idxs then Inr (map (nth xs) idxs) else Inl IndexError)"

text \<open>
  \<^verbatim>\<open>list(set(np.arange(n)) - set(matched))\<close>: the indices below \<open>n\<close> that are not
  matched. The indices are listed in increasing order; the iteration order of a Python
  set only affects the order of the entries of FP and FN.
\<close>

definition unmatched :: "nat \<Rightarrow> nat list \<Rightarrow> nat list" where
  "unmatched n matched = filter (\<lambda>i. i \<notin> set matched) [0..<n]"

text \<open>Python's \<^verbatim>\<open>/\<close> on numbers raises \<^verbatim>\<open>ZeroDivisionError\<close> for a zero divisor.\<close>

definition py_div :: "real \<Rightarrow> real \<Rightarrow> error + real" where
  "py_div a b = (if b = 0 then Inl ZeroDivisionError else Inr (a / b))"

text \<open>
  The inner loop of lines 131-138 for one reference offset \<open>i\<close>: the first estimated offset
  within \<open>max_misalignment\<close> is returned with its index (the \<^verbatim>\<open>break\<close>).
  \<^verbatim>\<open>reference_onsets[i]\<close> is read in every iteration and raises outside the array.
\<close>

fun collar_scan :: "real list \<Rightarrow> nat \<Rightarrow> real \<Rightarrow> (nat \<times> real) list \<Rightarrow> error + (nat \<times> real) option" where
  "collar_scan reference_onsets i ref_offset [] = Inr None"
| "collar_scan reference_onsets i ref_offset ((j, est_offset) # rest) =
     (if i < length reference_onsets then
        (let max_misalignment = 0.5 * (ref_offset - reference_onsets ! i)
         in if \<bar>ref_offset - est_offset\<bar> \<le> max_misalignment then Inr (Some (j, est_offset))
            else collar_scan reference_onsets i ref_offset rest)
      else Inl IndexError)"

text \<open>
  The outer loop of lines 130-138 over \<^verbatim>\<open>enumerate(reference_offsets)\<close>. The state is
  (TP, matched_estimated, matched_reference); a hit appends to all three.
\<close>

type_synonym pass_state = "real list \<times> nat list \<times> nat list"

fun collar_pass :: "real list \<Rightarrow> real list \<Rightarrow> (nat \<times> real) list \<Rightarrow> pass_state \<Rightarrow> error + pass_state" where
  "collar_pass reference_onsets estimated_offsets [] st = Inr st"
| "collar_pass reference_onsets estimated_offsets ((i, ref_offset) # rest) (TP, matched_estimated, matched_reference) =
     (case collar_scan reference_onsets i ref_offset (enumerate 0 estimated_offsets) of
        Inl e \<Rightarrow> Inl e
      | Inr None \<Rightarrow>
          collar_pass reference_onsets estimated_offsets rest (TP, matched_estimated, matched_reference)
      | Inr (Some (j, est_offset)) \<Rightarrow>
          collar_pass reference_onsets estimated_offsets rest
            (TP @ [est_offset], matched_estimated @ [j], matched_reference @ [i]))"

text \<open>The value returned by \<^verbatim>\<open>f_measure\<close>: (f_measure, precision, recall, TP, FP, FN).\<close>

type_synonym score = "real \<times> real \<times> real \<times> real list \<times> real list \<times> real list"

text \<open>
  Lines 146-153 of \<^verbatim>\<open>f_measure\<close>: precision and recall recomputed from the lengths of
  TP, FP and FN, then the F-measure.
\<close>

definition final_scores :: "real list \<Rightarrow> real list \<Rightarrow> real list \<Rightarrow> error + score" where
  "final_scores TP FP FN =
     bind_err (py_div (real (length TP)) (real (length TP + length FP))) (\<lambda>precision.
     bind_err (py_div (real (length TP)) (real (length TP + length FN))) (\<lambda>recall.
     bind_err (py_div (2 * precision * recall) (precision + recall)) (\<lambda>f.
     Inr (f, precision, recall, TP, FP, FN))))"

text \<open>
  Lines 112-145 of \<^verbatim>\<open>f_measure\<close>, reached with a non-empty matching. The precision and
  recall of lines 125-126 are computed and then overwritten, as in the source; FP and FN
  of lines 121-122 are kept and extended by \<^verbatim>\<open>np.append\<close> in lines 143-144.
\<close>

definition score_matching ::
  "real list \<Rightarrow> real list \<Rightarrow> real list \<Rightarrow> (nat \<times> nat) list \<Rightarrow> error + score" where
  "score_matching reference_onsets reference_offsets estimated_offsets matching =
     (let matched_reference = map fst matching;
          matched_estimated = map snd matching;
          unmatched_reference = unmatched (length reference_offsets) matched_reference;
          unmatched_estimated = unmatched (length estimated_offsets) matched_estimated
      in bind_err (np_take estimated_offsets matched_estimated) (\<lambda>TP.
         bind_err (np_take estimated_offsets unmatched_estimated) (\<lambda>FP.
         bind_err (np_take reference_offsets unmatched_reference) (\<lambda>FN.
         bind_err (py_div (real (length matching)) (real (length estimated_offsets))) (\<lambda>precision0.
         bind_err (py_div (real (length matching)) (real (length reference_offsets))) (\<lambda>recall0.
         bind_err (collar_pass reference_onsets estimated_offsets (enumerate 0 reference_offsets)
                     (TP, matched_estimated, matched_reference))
           (\<lambda>(TP, matched_estimated, matched_reference).
         let unmatched_reference = unmatched (length reference_offsets) matched_reference;
             unmatched_estimated = unmatched (length estimated_offsets) matched_estimated
         in
         bind_err (np_take estimated_offsets unmatched_estimated) (\<lambda>FP'.
         bind_err (np_take reference_offsets unmatched_reference) (\<lambda>FN'.
         final_scores TP (FP @ FP') (FN @ FN'))))))))))"

text \<open>
  \<^verbatim>\<open>f_measure\<close> (offset.py, lines 58-153). The result carries the warnings emitted by
  \<^const>\<open>validate\<close> next to the returned tuple.
\<close>

definition f_measure ::
  "real list \<Rightarrow> float64 list \<Rightarrow> float64 list \<Rightarrow> real \<Rightarrow> error + (string list \<times> score)" where
  "f_measure reference_onsets reference_offsets estimated_offsets window =
     bind_err (validate reference_offsets estimated_offsets) (\<lambda>warns.
       let ref = map the_finite reference_offsets;
           est = map the_finite estimated_offsets
       in if length ref = 0 \<or> length est = 0 then Inr (warns, (0, 0, 0, [], est, ref))
          else
            (let matching = match_events ref est window
             in if length matching = 0 then Inr (warns, (0, 0, 0, [], est, ref))
                else bind_err (score_matching reference_onsets ref est matching)
                       (\<lambda>s. Inr (warns, s))))"

section \<open>Double-threshold onset detector\<close>

text \<open>
  The magnitude spectrogram of \<^verbatim>\<open>double_thr_ons_detect\<close> (_old__algorithms.py, line 328)
  is a two-dimensional array indexed \<^verbatim>\<open>[frequency bin, time frame]\<close>: its shape and its
  cells. Magnitudes are idealised as reals.
\<close>

record spectrogram =
  shape0 :: nat
  shape1 :: nat
  cell :: "nat \<Rightarrow> nat \<Rightarrow> real"

text \<open>
  numpy indexing \<^verbatim>\<open>spectrogram[f, t]\<close>: a negative index counts from the end of its
  axis, an index outside the axis raises \<^verbatim>\<open>IndexError\<close>.
\<close>

definition getitem :: "spectrogram \<Rightarrow> int \<Rightarrow> int \<Rightarrow> error + real" where
  "getitem S f t =
     (let f' = (if f < 0 then f + int (shape0 S) else f);
          t' = (if t < 0 then t + int (shape1 S) else t)
      in if 0 \<le> f' \<and> f' < int (shape0 S) \<and> 0 \<le> t' \<and> t' < int (shape1 S)
         then Inr (cell S (nat f') (nat t'))
         else Inl IndexError)"

text \<open>
  The condition of lines 351-353. \<^verbatim>\<open>|\<close> evaluates both operands; the right operand
  is a chain of \<^verbatim>\<open>and\<close>, which stops at its first false comparison. The cell
  \<^verbatim>\<open>spectrogram[f, t]\<close> is read once here, the array being unchanged during the scan.
\<close>

definition onset_condition :: "spectrogram \<Rightarrow> real \<Rightarrow> real \<Rightarrow> nat \<Rightarrow> nat \<Rightarrow> error + bool" where
  "onset_condition S low_threshold high_threshold f t =
     bind_err (getitem S (int f) (int t)) (\<lambda>a.
     bind_err (if a > low_threshold then
                 bind_err (getitem S (int f) (int t - 1)) (\<lambda>b.
                   if a > b then
                     bind_err (getitem S (int f) (int t + 1)) (\<lambda>c. Inr (a > c))
                   else Inr False)
               else Inr False) (\<lambda>local_maximum.
     Inr (a > high_threshold \<or> local_maximum)))"

text \<open>
  The value of that condition when the three cells are inside the array. The frame read
  as \<^verbatim>\<open>t - 1\<close> at frame 0 is the last frame, by the negative index.
\<close>

definition fires :: "spectrogram \<Rightarrow> real \<Rightarrow> real \<Rightarrow> nat \<Rightarrow> nat \<Rightarrow> bool" where
  "fires S low_threshold high_threshold f t \<longleftrightarrow>
     cell S f t > high_threshold \<or>
     (cell S f t > low_threshold \<and>
      cell S f t > cell S f (if t = 0 then shape1 S - 1 else t - 1) \<and>
      cell S f t > cell S f (t + 1))"

text \<open>
  \<^verbatim>\<open>librosa.frames_to_time(t, sr=sr, hop_length=hop_length)\<close> (line 356): the frame
  index times the hop length, divided by the sample rate.
\<close>

definition frames_to_time :: "nat \<Rightarrow> real \<Rightarrow> nat \<Rightarrow> real" where
  "frames_to_time t sr hop_length = real (t * hop_length) / sr"

text \<open>The loop over the frequency bins of one frame (lines 346-358).\<close>

fun bin_loop ::
  "spectrogram \<Rightarrow> real \<Rightarrow> real \<Rightarrow> real \<Rightarrow> nat \<Rightarrow> nat \<Rightarrow> nat list \<Rightarrow> real list \<Rightarrow> error + real list" where
  "bin_loop S low_threshold high_threshold sr hop_length t [] onset_times = Inr onset_times"
| "bin_loop S low_threshold high_threshold sr hop_length t (f # fs) onset_times =
     (if f < shape0 S then
        (case onset_condition S low_threshold high_threshold f t of
           Inl e \<Rightarrow> Inl e
         | Inr q \<Rightarrow>
             bin_loop S low_threshold high_threshold sr hop_length t fs
               (if q then onset_times @ [frames_to_time t sr hop_length] else onset_times))
      else bin_loop S low_threshold high_threshold sr hop_length t fs onset_times)"

text \<open>The loop over the time frames (lines 344-358).\<close>

fun frame_loop ::
  "spectrogram \<Rightarrow> nat \<Rightarrow> nat \<Rightarrow> real \<Rightarrow> real \<Rightarrow> real \<Rightarrow> nat \<Rightarrow> nat list \<Rightarrow> real list \<Rightarrow> error + real list" where
  "frame_loop S low_freq_bin high_freq_bin low_threshold high_threshold sr hop_length [] onset_times =
     Inr onset_times"
| "frame_loop S low_freq_bin high_freq_bin low_threshold high_threshold sr hop_length (t # ts) onset_times =
     (case bin_loop S low_threshold high_threshold sr hop_length t [low_freq_bin..<high_freq_bin] onset_times of
        Inl e \<Rightarrow> Inl e
      | Inr onset_times' \<Rightarrow>
          frame_loop S low_freq_bin high_freq_bin low_threshold high_threshold sr hop_length ts onset_times')"

text \<open>
  Lines 342-358: \<^verbatim>\<open>onset_times = []\<close>, then the scan of
  \<^verbatim>\<open>range(spectrogram.shape[1]-1)\<close>, which is empty when there is no frame.
\<close>

definition double_thr_scan ::
  "spectrogram \<Rightarrow> nat \<Rightarrow> nat \<Rightarrow> real \<Rightarrow> real \<Rightarrow> real \<Rightarrow> nat \<Rightarrow> error + real list" where
  "double_thr_scan S low_freq_bin high_freq_bin low_threshold high_threshold sr hop_length =
     frame_loop S low_freq_bin high_freq_bin low_threshold high_threshold sr hop_length
       [0..<shape1 S - 1] []"

text \<open>The constants of lines 326, 337 and 339.\<close>

definition hop_length :: nat where
  "hop_length = 440"

definition low_threshold :: real where
  "low_threshold = 100"

definition high_threshold :: real where
  "high_threshold = 200"

text \<open>
  The detection part of \<^verbatim>\<open>double_thr_ons_detect\<close>. The spectrogram, the sample rate and
  the two band limits come from librosa (lines 322-334) and are parameters here.
\<close>

definition double_thr_ons_detect :: "spectrogram \<Rightarrow> real \<Rightarrow> nat \<Rightarrow> nat \<Rightarrow> error + real list" where
  "double_thr_ons_detect S sr low_freq_bin high_freq_bin =
     double_thr_scan S low_freq_bin high_freq_bin low_threshold high_threshold sr hop_length"

section \<open>Inter-onset correction\<close>

text \<open>\<^verbatim>\<open>np.diff\<close>: the differences of consecutive elements.\<close>

fun np_diff :: "real list \<Rightarrow> real list" where
  "np_diff (a # b # xs) = (b - a) # np_diff (b # xs)"
| "np_diff [a] = []"
| "np_diff [] = []"

text \<open>
  The loop of lines 43-46 over \<^verbatim>\<open>enumerate(differences)\<close>; \<^verbatim>\<open>onsets_predicted[i + 1]\<close>
  raises outside the list.
\<close>

fun correction_loop :: "real list \<Rightarrow> real \<Rightarrow> (nat \<times> real) list \<Rightarrow> real list \<Rightarrow> error + real list" where
  "correction_loop onsets_predicted correction [] filtered_onsets = Inr filtered_onsets"
| "correction_loop onsets_predicted correction ((i, diff) # rest) filtered_onsets =
     (if diff \<ge> correction then
        (if i + 1 < length onsets_predicted then
           correction_loop onsets_predicted correction rest
             (filtered_onsets @ [onsets_predicted ! (i + 1)])
         else Inl IndexError)
      else correction_loop onsets_predicted correction rest filtered_onsets)"

text \<open>
  \<^verbatim>\<open>double_onsets_correction\<close> (_old__algorithms.py, lines 31-48). The ground-truth
  onsets are converted to an array and not used; \<^verbatim>\<open>onsets_predicted[0]\<close> raises on an
  empty list.
\<close>

definition double_onsets_correction :: "real list \<Rightarrow> real list \<Rightarrow> real \<Rightarrow> error + real list" where
  "double_onsets_correction onsets_predicted gt_onsets correction =
     (let differences = np_diff onsets_predicted
      in case onsets_predicted of
           [] \<Rightarrow> Inl IndexError
         | x # _ \<Rightarrow> correction_loop onsets_predicted correction (enumerate 0 differences) [x])"

section \<open>Properties of validation and of the early returns\<close>

lemma bind_err_simps:
  "bind_err (Inl e) k = Inl e"
  "bind_err (Inr x) k = k x"
  by (simp_all add: bind_err_def)

lemma bind_err_Inr_iff: "bind_err m k = Inr y \<longleftrightarrow> (\<exists>x. m = Inr x \<and> k x = Inr y)"
  by (cases m) (simp_all add: bind_err_def)

lemma bind_err_Inl_iff:
  "bind_err m k = Inl e \<longleftrightarrow> m = Inl e \<or> (\<exists>x. m = Inr x \<and> k x = Inl e)"
  by (cases m) (simp_all add: bind_err_def)

lemma validate_events_Inr: "list_all (event_ok m) xs \<Longrightarrow> validate_events xs m = Inr ()"
  by (simp add: validate_events_def)

lemma validate_ok:
  "list_all (event_ok MAX_TIME) r \<Longrightarrow> list_all (event_ok MAX_TIME) e \<Longrightarrow>
   validate r e = Inr ((if r = [] then [''Reference onsets are empty.''] else []) @
     (if e = [] then [''Estimated onsets are empty.''] else []))"
  by (simp add: validate_def validate_events_Inr bind_err_simps)

lemma validate_bad:
  "\<not> (list_all (event_ok MAX_TIME) r \<and> list_all (event_ok MAX_TIME) e) \<Longrightarrow>
   validate r e = Inl InvalidInput"
  by (cases "list_all (event_ok MAX_TIME) r")
     (auto simp add: validate_def validate_events_def bind_err_simps Let_def)

lemma f_measure_bad:
  "\<not> (list_all (event_ok MAX_TIME) r \<and> list_all (event_ok MAX_TIME) e) \<Longrightarrow>
   f_measure ons r e w = Inl InvalidInput"
  using validate_bad [of r e] by (simp add: f_measure_def bind_err_simps)

text \<open>
  Claim C9. For non-empty reference and estimated offset sequences of valid event times,
  an empty base window matching makes \<open>f_measure\<close> return
  \<open>(0, 0, 0, [], estimated, reference)\<close> at once: the result does not depend on the
  reference onsets, so the duration-relative pass is not run and adds no true positive.
\<close>

theorem f_measure_empty_matching:
  assumes "list_all (event_ok MAX_TIME) reference_offsets"
      and "list_all (event_ok MAX_TIME) estimated_offsets"
      and "reference_offsets \<noteq> []" and "estimated_offsets \<noteq> []"
      and "match_events (map the_finite reference_offsets) (map the_finite estimated_offsets) window = []"
  shows "f_measure reference_onsets reference_offsets estimated_offsets window =
           Inr ([], (0, 0, 0, [], map the_finite estimated_offsets, map the_finite reference_offsets))"
  using assms by (simp add: f_measure_def validate_ok bind_err_simps)

theorem f_measure_empty_matching_witness:
  "match_events [2, 7] [3] 0.5 = [] \<and>
   f_measure [] [Finite 2, Finite 7] [Finite 3] 0.5 = Inr ([], (0, 0, 0, [], [3], [2, 7]))"
  using f_measure_empty_matching [of "[Finite 2, Finite 7]" "[Finite 3]" "0.5" "[]"]
  by (simp add: MAX_TIME_def match_events_def candidates_def)

text \<open>
  Claim C4. When the reference or the estimated sequence is empty, \<open>f_measure\<close> that
  returns does so with a warning and the value \<open>(0, 0, 0, [], estimated, reference)\<close>; the
  only exception it can raise is the one of the validation of the event times, for an
  event time that is not valid, never one for the emptiness.
\<close>

theorem f_measure_empty_input:
  assumes "reference_offsets = [] \<or> estimated_offsets = []"
  shows "case f_measure reference_onsets reference_offsets estimated_offsets window of
           Inr (warns, s) \<Rightarrow> warns \<noteq> [] \<and>
              s = (0, 0, 0, [], map the_finite estimated_offsets, map the_finite reference_offsets)
         | Inl e \<Rightarrow> e = InvalidInput \<and>
              \<not> list_all (event_ok MAX_TIME) (reference_offsets @ estimated_offsets)"
proof (cases "list_all (event_ok MAX_TIME) reference_offsets \<and>
              list_all (event_ok MAX_TIME) estimated_offsets")
  case True
  then show ?thesis using assms
    by (auto simp add: f_measure_def validate_ok bind_err_simps)
next
  case False
  then show ?thesis
    by (auto simp add: f_measure_bad)
qed

theorem f_measure_empty_input_witness:
  "f_measure [1] [] [Finite 4] 0.05 = Inr ([''Reference onsets are empty.''], (0, 0, 0, [], [4], []))
   \<and> f_measure [1] [Finite 4] [] 0.05 = Inr ([''Estimated onsets are empty.''], (0, 0, 0, [], [], [4]))"
  using f_measure_empty_input [of "[]" "[Finite 4]" "[1]" "0.05"]
        f_measure_empty_input [of "[Finite 4]" "[]" "[1]" "0.05"]
  by (simp add: f_measure_def validate_def validate_events_def MAX_TIME_def bind_err_def)

text \<open>
  Claim C6. An event time of the reference or of the estimated sequence that is negative,
  not finite or beyond 30000 seconds makes \<open>f_measure\<close> fail with \<open>InvalidInput\<close>,
  whatever the other arguments are: the validation comes first, and no score is computed
  from a changed value.
\<close>

theorem f_measure_invalid_input:
  assumes "x \<in> set reference_offsets \<union> set estimated_offsets"
      and "x = NaN \<or> x = PosInf \<or> x = NegInf \<or> (\<exists>r. x = Finite r \<and> (r < 0 \<or> 30000 < r))"
  shows "f_measure reference_onsets reference_offsets estimated_offsets window = Inl InvalidInput"
proof -
  from assms(2) have "\<not> event_ok MAX_TIME x"
    by (auto simp add: MAX_TIME_def)
  with assms(1) have "\<not> (list_all (event_ok MAX_TIME) reference_offsets \<and>
                         list_all (event_ok MAX_TIME) estimated_offsets)"
    by (auto simp add: list_all_iff)
  then show ?thesis by (rule f_measure_bad)
qed

theorem f_measure_invalid_input_witness:
  "f_measure [0] [Finite 1] [Finite 1, Finite 30001] 0.05 = Inl InvalidInput
   \<and> f_measure [0] [Finite (-1)] [Finite 1] 0.05 = Inl InvalidInput
   \<and> f_measure [0] [Finite 1] [NaN] 0.05 = Inl InvalidInput"
  using f_measure_invalid_input [of "Finite 30001" "[Finite 1]" "[Finite 1, Finite 30001]" "[0]" "0.05"]
        f_measure_invalid_input [of "Finite (-1)" "[Finite (-1)]" "[Finite 1]" "[0]" "0.05"]
        f_measure_invalid_input [of "NaN" "[Finite 1]" "[NaN]" "[0]" "0.05"]
  by simp

section \<open>Properties of the scoring after a non-empty matching\<close>

lemma np_take_Inr: "np_take xs idxs = Inr ys \<Longrightarrow> length ys = length idxs"
  by (auto simp add: np_take_def split: if_splits)

lemma np_take_Inl: "np_take xs idxs = Inl e \<Longrightarrow> e = IndexError"
  by (auto simp add: np_take_def split: if_splits)

lemma collar_scan_Inl: "collar_scan ons i r js = Inl e \<Longrightarrow> e = IndexError"
proof (induction js)
  case Nil
  then show ?case by simp
next
  case (Cons a js)
  obtain j x where "a = (j, x)" by (cases a)
  with Cons show ?case by (simp add: Let_def split: if_splits)
qed

lemma collar_pass_Inl: "collar_pass ons est refs st = Inl e \<Longrightarrow> e = IndexError"
  by (induction ons est refs st rule: collar_pass.induct)
     (auto split: sum.splits option.splits prod.splits dest: collar_scan_Inl)

lemma collar_pass_length:
  "collar_pass ons est refs (TP, me, mr) = Inr (TP', me', mr') \<Longrightarrow> length TP \<le> length TP'"
proof (induction refs arbitrary: TP me mr)
  case Nil
  then show ?case by simp
next
  case (Cons a refs)
  obtain i r where a: "a = (i, r)" by (cases a)
  show ?case
  proof (cases "collar_scan ons i r (enumerate 0 est)")
    case (Inl e)
    with Cons.prems a show ?thesis by simp
  next
    case (Inr hit)
    show ?thesis
    proof (cases hit)
      case None
      with Cons.prems a Inr have "collar_pass ons est refs (TP, me, mr) = Inr (TP', me', mr')"
        by simp
      then show ?thesis by (rule Cons.IH)
    next
      case (Some p)
      obtain j e where p: "p = (j, e)" by (cases p)
      with Cons.prems a Inr Some
      have "collar_pass ons est refs (TP @ [e], me @ [j], mr @ [i]) = Inr (TP', me', mr')"
        by simp
      then have "length (TP @ [e]) \<le> length TP'" by (rule Cons.IH)
      then show ?thesis by simp
    qed
  qed
qed

lemma py_div_pos: "0 < b \<Longrightarrow> py_div a b = Inr (a / b)"
  by (simp add: py_div_def)

lemma final_scores_pos:
  assumes "TP \<noteq> []"
  shows "\<exists>p r. 0 < p \<and> 0 < r \<and>
           final_scores TP FP FN = Inr (2 * p * r / (p + r), p, r, TP, FP, FN)"
proof -
  let ?p = "real (length TP) / real (length TP + length FP)"
  let ?r = "real (length TP) / real (length TP + length FN)"
  from assms have pos: "0 < length TP" by simp
  then have n: "0 < real (length TP)" by simp
  have "0 < length TP + length FP" and "0 < length TP + length FN"
    using pos by arith+
  then have dp: "0 < real (length TP + length FP)" and dr: "0 < real (length TP + length FN)"
    by (simp_all only: of_nat_0_less_iff)
  from n dp dr have p: "0 < ?p" and r: "0 < ?r" by (simp_all only: divide_pos_pos)
  then have s: "0 < ?p + ?r" by linarith
  have "final_scores TP FP FN = Inr (2 * ?p * ?r / (?p + ?r), ?p, ?r, TP, FP, FN)"
    unfolding final_scores_def
    by (simp only: py_div_pos [OF dp] py_div_pos [OF dr] py_div_pos [OF s] bind_err_simps)
  with p r show ?thesis by blast
qed

lemma tp_nonempty:
  assumes "collar_pass ons est refs (TP0, me, mr) = Inr (TP1, me1, mr1)"
      and "np_take est (map snd matching) = Inr TP0" and "matching \<noteq> []"
  shows "TP1 \<noteq> []"
proof -
  from assms(2) have "length TP0 = length matching" by (auto dest: np_take_Inr)
  moreover from assms(1) have "length TP0 \<le> length TP1" by (rule collar_pass_length)
  ultimately show ?thesis using assms(3) by (cases matching) auto
qed

lemma score_matching_cases:
  assumes "matching \<noteq> []" and "ref \<noteq> []" and "est \<noteq> []"
  shows "score_matching ons ref est matching = Inl IndexError \<or>
         (\<exists>p r TP FP FN. 0 < p \<and> 0 < r \<and>
            score_matching ons ref est matching = Inr (2 * p * r / (p + r), p, r, TP, FP, FN))"
proof (cases "score_matching ons ref est matching")
  case (Inl e)
  have len: "0 < real (length est)" "0 < real (length ref)"
    using assms by simp_all
  from Inl have "e = IndexError"
    unfolding score_matching_def Let_def
    apply (simp add: bind_err_Inl_iff py_div_pos [OF len(1)] py_div_pos [OF len(2)] split: prod.splits)
    apply (elim disjE exE conjE)
    apply (auto dest: np_take_Inl collar_pass_Inl)
    subgoal for a b c d e f g h
      using final_scores_pos [of d "b @ g" "c @ h"]
        tp_nonempty [of ons est "enumerate 0 ref" a "map snd matching" "map fst matching" d e f matching]
        assms(1)
      by auto
    done
  with Inl show ?thesis by simp
next
  case (Inr s)
  have len: "0 < real (length est)" "0 < real (length ref)"
    using assms by simp_all
  from Inr show ?thesis
    unfolding score_matching_def Let_def
    apply (simp add: bind_err_Inr_iff py_div_pos [OF len(1)] py_div_pos [OF len(2)] split: prod.splits)
    apply (elim exE conjE)
    subgoal for a b c d e f g h
      using final_scores_pos [of d "b @ g" "c @ h"]
        tp_nonempty [of ons est "enumerate 0 ref" a "map snd matching" "map fst matching" d e f matching]
        assms(1)
      by auto
    done
qed

text \<open>
  Claim C5. \<open>f_measure\<close> never raises \<open>ZeroDivisionError\<close>, and a returned score is either
  the zero score of an early return, with \<open>precision + recall = 0\<close> and F-measure \<open>0\<close>, or
  the value of the formula \<open>2 * precision * recall / (precision + recall)\<close> at a strictly
  positive \<open>precision + recall\<close>.
\<close>

theorem f_measure_no_zero_division:
  "f_measure reference_onsets reference_offsets estimated_offsets window \<noteq> Inl ZeroDivisionError \<and>
   (\<forall>warns f p r TP FP FN.
      f_measure reference_onsets reference_offsets estimated_offsets window =
        Inr (warns, (f, p, r, TP, FP, FN)) \<longrightarrow>
      (p + r = 0 \<and> f = 0) \<or> (0 < p + r \<and> f = 2 * p * r / (p + r)))"
proof (cases "list_all (event_ok MAX_TIME) reference_offsets \<and>
              list_all (event_ok MAX_TIME) estimated_offsets")
  case False
  then show ?thesis by (simp add: f_measure_bad)
next
  case True
  let ?ref = "map the_finite reference_offsets" and ?est = "map the_finite estimated_offsets"
  let ?m = "match_events ?ref ?est window"
  show ?thesis
  proof (cases "reference_offsets = [] \<or> estimated_offsets = [] \<or> ?m = []")
    case True
    with \<open>list_all (event_ok MAX_TIME) reference_offsets \<and>
          list_all (event_ok MAX_TIME) estimated_offsets\<close>
    show ?thesis
      by (auto simp add: f_measure_def validate_ok bind_err_simps Let_def)
  next
    case False
    then have ne: "?m \<noteq> []" "?ref \<noteq> []" "?est \<noteq> []" by simp_all
    from False True
    have fm: "f_measure reference_onsets reference_offsets estimated_offsets window =
        bind_err (score_matching reference_onsets ?ref ?est ?m) (\<lambda>s. Inr ([], s))"
      by (simp add: f_measure_def validate_ok bind_err_simps Let_def)
    from score_matching_cases [OF ne, of reference_onsets] show ?thesis
    proof
      assume "score_matching reference_onsets ?ref ?est ?m = Inl IndexError"
      with fm show ?thesis by (simp add: bind_err_simps)
    next
      assume "\<exists>p r TP FP FN. 0 < p \<and> 0 < r \<and>
            score_matching reference_onsets ?ref ?est ?m =
              Inr (2 * p * r / (p + r), p, r, TP, FP, FN)"
      then obtain p r TP FP FN where "0 < p" "0 < r"
        and "score_matching reference_onsets ?ref ?est ?m =
               Inr (2 * p * r / (p + r), p, r, TP, FP, FN)"
        by blast
      with fm show ?thesis by (simp add: bind_err_simps)
    qed
  qed
qed

theorem f_measure_no_zero_division_witness:
  "f_measure [1, 6] [Finite 2, Finite 7] [Finite 2, Finite 9] 0.05 =
     Inr ([], (1 / 2, 1 / 2, 1 / 2, [2, 2], [9, 9], [7, 7]))
   \<and> (0::real) < 1 / 2 + 1 / 2 \<and> (1 / 2 :: real) = 2 * (1 / 2) * (1 / 2) / (1 / 2 + 1 / 2)"
  using f_measure_no_zero_division [of "[1, 6]" "[Finite 2, Finite 7]" "[Finite 2, Finite 9]" "0.05"]
  by (simp add: f_measure_def validate_def validate_events_def MAX_TIME_def bind_err_def
        match_events_def candidates_def score_matching_def np_take_def unmatched_def
        py_div_def final_scores_def)

text \<open>
  Claim C1. On reference onsets \<open>[1.0, 3.0]\<close>, reference offsets \<open>[1.5, 3.8]\<close>, estimated
  offsets \<open>[1.6, 5.0]\<close> and window \<open>0.05\<close> the base window matching is empty, and the
  code returns at the guard of lines 109-110 with the zero score: no true positive,
  FP = \<open>[1.6, 5.0]\<close>, FN = \<open>[1.5, 3.8]\<close>, and precision, recall and F-measure all 0.
  The duration-relative pass, which would accept 1.6 for the reference offset 1.5
  (tolerance 0.25), is not reached.
\<close>

theorem f_measure_scenario_zero_score:
  "match_events [1.5, 3.8] [1.6, 5.0] 0.05 = [] \<and>
   f_measure [1.0, 3.0] [Finite 1.5, Finite 3.8] [Finite 1.6, Finite 5.0] 0.05 =
     Inr ([], (0, 0, 0, [], [1.6, 5.0], [1.5, 3.8]))"
  by (simp add: f_measure_def validate_def validate_events_def MAX_TIME_def bind_err_def
        match_events_def candidates_def)

text \<open>
  The path after a non-empty matching does apply the collar to the same event: with one
  more event whose estimated offset is exact (onset 9, offset 10, estimate 10), the base
  matching is \<open>[(2, 2)]\<close> and the pass adds 1.6 to the true positives.
\<close>

lemma f_measure_scenario_with_exact_pair:
  "match_events [1.5, 3.8, 10] [1.6, 5.0, 10] 0.05 = [(2, 2)] \<and>
   f_measure [1.0, 3.0, 9.0] [Finite 1.5, Finite 3.8, Finite 10]
       [Finite 1.6, Finite 5.0, Finite 10] 0.05 =
     Inr ([], (1 / 2, 1 / 2, 1 / 2, [10, 1.6, 10], [1.6, 5.0, 5.0], [1.5, 3.8, 3.8]))"
  by (simp add: f_measure_def validate_def validate_events_def MAX_TIME_def bind_err_def
        match_events_def candidates_def score_matching_def np_take_def unmatched_def
        py_div_def final_scores_def)

text \<open>
  Claim C2. On reference onsets \<open>[0, 0, 4]\<close>, reference offsets \<open>[1, 1.2, 5]\<close>, estimated
  offsets \<open>[1.1, 5]\<close> and window \<open>0.05\<close> the base matching is \<open>[(2, 1)]\<close>. The second
  pass then visits every reference offset, the matched one too, and tests every estimated
  offset, the matched one too: estimated index 0 is taken for reference 0 and again for
  reference 1, and the pair (2, 1) of the base matching is taken a second time.
\<close>

theorem collar_pass_reuses_indices:
  "match_events [1, 1.2, 5] [1.1, 5] 0.05 = [(2, 1)] \<and>
   collar_pass [0, 0, 4] [1.1, 5] (enumerate 0 [1, 1.2, 5]) ([5], [1], [2]) =
     Inr ([5, 1.1, 1.1, 5], [1, 0, 0, 1], [2, 0, 1, 2]) \<and>
   f_measure [0, 0, 4] [Finite 1, Finite 1.2, Finite 5] [Finite 1.1, Finite 5] 0.05 =
     Inr ([], (8 / 11, 4 / 5, 2 / 3, [5, 1.1, 1.1, 5], [1.1], [1, 1.2]))"
  by (simp add: f_measure_def validate_def validate_events_def MAX_TIME_def bind_err_def
        match_events_def candidates_def score_matching_def np_take_def unmatched_def
        py_div_def final_scores_def)

text \<open>
  Claim C3. On reference onsets \<open>[0]\<close>, reference offsets \<open>[1]\<close>, estimated offsets
  \<open>[1, 5]\<close> and window \<open>0.05\<close> the code returns TP = \<open>[1, 1]\<close>, FP = \<open>[5, 5]\<close> and
  FN = \<open>[]\<close>: four entries in TP and FP for two estimated offsets, two entries in TP and
  FN for one reference offset.
\<close>

theorem f_measure_duplicated_entries:
  "f_measure [0] [Finite 1] [Finite 1, Finite 5] 0.05 =
     Inr ([], (2 / 3, 1 / 2, 1, [1, 1], [5, 5], []))"
  by (simp add: f_measure_def validate_def validate_events_def MAX_TIME_def bind_err_def
        match_events_def candidates_def score_matching_def np_take_def unmatched_def
        py_div_def final_scores_def)

section \<open>Properties of the double-threshold detector\<close>

lemma getitem_in_range:
  "f < shape0 S \<Longrightarrow> t < shape1 S \<Longrightarrow> getitem S (int f) (int t) = Inr (cell S f t)"
  by (simp add: getitem_def)

lemma getitem_prev:
  "f < shape0 S \<Longrightarrow> t < shape1 S \<Longrightarrow>
   getitem S (int f) (int t - 1) = Inr (cell S f (if t = 0 then shape1 S - 1 else t - 1))"
  by (cases t) (simp_all add: getitem_def nat_diff_distrib' nat_add_distrib)

lemma getitem_next:
  "f < shape0 S \<Longrightarrow> t + 1 < shape1 S \<Longrightarrow> getitem S (int f) (int t + 1) = Inr (cell S f (t + 1))"
  using getitem_in_range [of f S "t + 1"] by (simp add: add.commute)

lemma onset_condition_eq:
  assumes "f < shape0 S" and "t + 1 < shape1 S"
  shows "onset_condition S lo hi f t = Inr (fires S lo hi f t)"
proof -
  from assms(2) have t: "t < shape1 S" by simp
  show ?thesis
    unfolding onset_condition_def fires_def
    by (simp only: getitem_in_range [OF assms(1) t] getitem_prev [OF assms(1) t]
          getitem_next [OF assms] bind_err_simps) (simp add: bind_err_simps)
qed

lemma bin_loop_eq:
  assumes "t + 1 < shape1 S"
  shows "bin_loop S lo hi sr hop t fs acc =
         Inr (acc @ map (\<lambda>_. frames_to_time t sr hop)
                        (filter (\<lambda>f. f < shape0 S \<and> fires S lo hi f t) fs))"
  using assms by (induction fs arbitrary: acc) (simp_all add: onset_condition_eq)

lemma frame_loop_eq:
  assumes "\<forall>t\<in>set ts. t + 1 < shape1 S"
  shows "frame_loop S lb hb lo hi sr hop ts acc =
         Inr (acc @ concat (map (\<lambda>t. map (\<lambda>_. frames_to_time t sr hop)
                        (filter (\<lambda>f. f < shape0 S \<and> fires S lo hi f t) [lb..<hb])) ts))"
  using assms by (induction ts arbitrary: acc) (simp_all add: bin_loop_eq)

lemma double_thr_scan_eq:
  "double_thr_scan S lb hb lo hi sr hop =
     Inr (concat (map (\<lambda>t. map (\<lambda>_. frames_to_time t sr hop)
                        (filter (\<lambda>f. f < shape0 S \<and> fires S lo hi f t) [lb..<hb]))
                  [0..<shape1 S - 1]))"
proof -
  have "\<forall>t\<in>set [0..<shape1 S - 1]. t + 1 < shape1 S" by auto
  from frame_loop_eq [OF this] show ?thesis by (simp add: double_thr_scan_def)
qed

lemma frames_to_time_inj:
  "0 < sr \<Longrightarrow> 0 < hop \<Longrightarrow> frames_to_time t sr hop = frames_to_time t' sr hop \<longleftrightarrow> t = t'"
  by (simp add: frames_to_time_def)

lemma count_list_const:
  "count_list (map (\<lambda>_. v) xs) w = (if v = w then length xs else 0)"
  by (induction xs) auto

lemma length_filter_mono:
  "(\<And>x. x \<in> set xs \<Longrightarrow> P x \<Longrightarrow> Q x) \<Longrightarrow> length (filter P xs) \<le> length (filter Q xs)"
  by (induction xs) auto

lemma count_concat_frames:
  assumes "0 < sr" and "0 < hop" and "distinct ts"
  shows "count_list (concat (map (\<lambda>t'. map (\<lambda>_. frames_to_time t' sr hop) (g t')) ts))
           (frames_to_time t sr hop) = (if t \<in> set ts then length (g t) else 0)"
  using assms(3)
proof (induction ts)
  case Nil
  then show ?case by simp
next
  case (Cons a ts)
  have "count_list (map (\<lambda>_. frames_to_time a sr hop) (g a)) (frames_to_time t sr hop) =
        (if a = t then length (g a) else 0)"
    by (simp add: count_list_const frames_to_time_inj [OF assms(1,2)])
  with Cons show ?case by auto
qed

text \<open>
  Claim C7, as the code has it. With a positive sample rate and hop length, the scan
  never raises, and for every frame \<open>t\<close> that has both neighbours (\<open>1 \<le> t\<close> and \<open>t\<close>
  before the last frame) the number of onset times \<open>t * hop_length / sr\<close> in the output is
  the number of bins \<open>f\<close> of the band that exist in the spectrogram and satisfy
  \<open>magnitude[f,t] > high_threshold\<close>, or \<open>magnitude[f,t] > low_threshold\<close> with
  \<open>magnitude[f,t] > magnitude[f,t-1]\<close> and \<open>magnitude[f,t] > magnitude[f,t+1]\<close>: one
  onset time for each such bin, with no deduplication. At frame 0, when it is not the
  last frame, every such bin above the high threshold emits its onset time. The last
  frame is not scanned and contributes no onset time.
\<close>

theorem double_thr_scan_interior_frames:
  assumes "0 < sr" and "0 < hop"
  shows "\<exists>onset_times.
           double_thr_scan S low_bin high_bin lo hi sr hop = Inr onset_times \<and>
           (\<forall>t. 1 \<le> t \<and> t + 1 < shape1 S \<longrightarrow>
              count_list onset_times (frames_to_time t sr hop) =
              length (filter (\<lambda>f. f < shape0 S \<and>
                        (cell S f t > hi \<or>
                         (cell S f t > lo \<and> cell S f t > cell S f (t - 1) \<and>
                          cell S f t > cell S f (t + 1))))
                      [low_bin..<high_bin])) \<and>
           (1 < shape1 S \<longrightarrow>
              length (filter (\<lambda>f. f < shape0 S \<and> cell S f 0 > hi) [low_bin..<high_bin])
                \<le> count_list onset_times (frames_to_time 0 sr hop)) \<and>
           count_list onset_times (frames_to_time (shape1 S - 1) sr hop) = 0"
proof -
  let ?g = "\<lambda>t. filter (\<lambda>f. f < shape0 S \<and> fires S lo hi f t) [low_bin..<high_bin]"
  let ?out = "concat (map (\<lambda>t. map (\<lambda>_. frames_to_time t sr hop) (?g t)) [0..<shape1 S - 1])"
  have eq: "double_thr_scan S low_bin high_bin lo hi sr hop = Inr ?out"
    by (rule double_thr_scan_eq)
  have cnt: "count_list ?out (frames_to_time t sr hop) =
             (if t \<in> set [0..<shape1 S - 1] then length (?g t) else 0)" for t
    by (rule count_concat_frames [OF assms]) simp
  have interior: "count_list ?out (frames_to_time t sr hop) =
      length (filter (\<lambda>f. f < shape0 S \<and>
                        (cell S f t > hi \<or>
                         (cell S f t > lo \<and> cell S f t > cell S f (t - 1) \<and>
                          cell S f t > cell S f (t + 1))))
                      [low_bin..<high_bin])"
    if "1 \<le> t \<and> t + 1 < shape1 S" for t
  proof -
    from that have "t \<noteq> 0" and "t \<in> set [0..<shape1 S - 1]" by auto
    then show ?thesis using cnt [of t] by (simp add: fires_def)
  qed
  have first: "length (filter (\<lambda>f. f < shape0 S \<and> cell S f 0 > hi) [low_bin..<high_bin])
                \<le> count_list ?out (frames_to_time 0 sr hop)"
    if "1 < shape1 S"
  proof -
    have "length (filter (\<lambda>f. f < shape0 S \<and> cell S f 0 > hi) [low_bin..<high_bin])
            \<le> length (?g 0)"
      by (rule length_filter_mono) (simp add: fires_def)
    moreover from that have "count_list ?out (frames_to_time 0 sr hop) = length (?g 0)"
      using cnt [of 0] by simp
    ultimately show ?thesis by simp
  qed
  have last: "count_list ?out (frames_to_time (shape1 S - 1) sr hop) = 0"
    using cnt [of "shape1 S - 1"] by simp
  from eq interior first last show ?thesis by blast
qed

theorem double_thr_scan_interior_frames_witness:
  "(0::real) < 44100 \<and> (0::nat) < 440 \<and>
   (\<exists>onset_times.
      double_thr_scan
        \<lparr>shape0 = 3, shape1 = 4,
         cell = (\<lambda>f t. if t = 2 then (if f = 0 then 250 else if f = 1 then 150 else 50)
                        else if t = 0 \<and> f = 2 then 300 else 0)\<rparr>
        0 3 100 200 44100 440 = Inr onset_times \<and>
      count_list onset_times (frames_to_time 2 44100 440) = 2 \<and>
      1 \<le> count_list onset_times (frames_to_time 0 44100 440) \<and>
      count_list onset_times (frames_to_time 3 44100 440) = 0)"
proof -
  let ?S = "\<lparr>shape0 = 3, shape1 = 4,
      cell = (\<lambda>f t. if t = 2 then (if f = 0 then 250 else if f = 1 then 150 else 50 :: real)
                     else if t = 0 \<and> f = 2 then 300 else 0)\<rparr>"
  have h1: "(0::real) < 44100" and h2: "(0::nat) < 440" by simp_all
  from double_thr_scan_interior_frames [OF h1 h2, of ?S 0 3 100 200]
  obtain onset_times where o: "double_thr_scan ?S 0 3 100 200 44100 440 = Inr onset_times"
    and c: "\<forall>t. 1 \<le> t \<and> t + 1 < shape1 ?S \<longrightarrow>
              count_list onset_times (frames_to_time t 44100 440) =
              length (filter (\<lambda>f. f < shape0 ?S \<and>
                        (cell ?S f t > 200 \<or>
                         (cell ?S f t > 100 \<and> cell ?S f t > cell ?S f (t - 1) \<and>
                          cell ?S f t > cell ?S f (t + 1))))
                      [0..<3])"
    and f: "1 < shape1 ?S \<longrightarrow>
              length (filter (\<lambda>f. f < shape0 ?S \<and> cell ?S f 0 > 200) [0..<3])
                \<le> count_list onset_times (frames_to_time 0 44100 440)"
    and l: "count_list onset_times (frames_to_time (shape1 ?S - 1) 44100 440) = 0"
    by blast
  from c [rule_format, of 2]
  have "count_list onset_times (frames_to_time 2 44100 440) = 2"
    by (simp add: upt_rec)
  moreover from f have "1 \<le> count_list onset_times (frames_to_time 0 44100 440)"
    by (simp add: upt_rec)
  moreover from l have "count_list onset_times (frames_to_time 3 44100 440) = 0"
    by simp
  ultimately show ?thesis using o h1 h2 by blast
qed

text \<open>
  The scan stops before the last frame: in a spectrogram of one bin and two frames whose
  last frame holds 300, above the high threshold 200, the detector emits nothing.
\<close>

theorem double_thr_last_frame_not_scanned:
  "cell \<lparr>shape0 = 1, shape1 = 2, cell = (\<lambda>f t. if t = 1 then 300 else 0)\<rparr> 0 1 > high_threshold \<and>
   double_thr_ons_detect \<lparr>shape0 = 1, shape1 = 2, cell = (\<lambda>f t. if t = 1 then 300 else 0)\<rparr> 44100 0 1 = Inr []"
  by (simp add: double_thr_ons_detect_def double_thr_scan_eq fires_def upt_rec
        high_threshold_def low_threshold_def)

text \<open>
  Claim C8. In a spectrogram of one bin and twelve frames that holds 150 at frame 0 (above
  the low threshold 100, below the high threshold 200), 300 at frame 10 and 0 elsewhere,
  only frame 10 exceeds the high threshold, and yet the code emits two onset times: one
  for frame 0, whose left neighbour is read at index \<open>-1\<close>, the last frame, and one for
  frame 10.
\<close>

theorem double_thr_first_frame_wraps:
  "double_thr_ons_detect
     \<lparr>shape0 = 1, shape1 = 12, cell = (\<lambda>f t. if t = 0 then 150 else if t = 10 then 300 else 0)\<rparr>
     44100 0 1 =
     Inr [frames_to_time 0 44100 hop_length, frames_to_time 10 44100 hop_length]"
  by (simp add: double_thr_ons_detect_def double_thr_scan_eq fires_def upt_rec
        high_threshold_def low_threshold_def frames_to_time_def hop_length_def)

section \<open>Properties of the inter-onset correction\<close>

lemma length_np_diff: "length (np_diff xs) = length xs - 1"
  by (induction xs rule: np_diff.induct) simp_all

lemma nth_np_diff: "i + 1 < length xs \<Longrightarrow> np_diff xs ! i = xs ! (i + 1) - xs ! i"
proof (induction xs arbitrary: i rule: np_diff.induct)
  case (1 a b xs)
  then show ?case by (cases i) simp_all
qed simp_all

lemma enumerate_np_diff:
  "enumerate 0 (np_diff xs) = map (\<lambda>i. (i, xs ! (i + 1) - xs ! i)) [0..<length xs - 1]"
  by (rule nth_equalityI) (simp_all add: length_np_diff nth_enumerate_eq nth_np_diff)

lemma correction_loop_eq:
  assumes "\<forall>i\<in>set js. i + 1 < length xs"
  shows "correction_loop xs c (map (\<lambda>i. (i, xs ! (i + 1) - xs ! i)) js) acc =
         Inr (acc @ map (\<lambda>i. xs ! (i + 1)) (filter (\<lambda>i. c \<le> xs ! (i + 1) - xs ! i) js))"
  using assms by (induction js arbitrary: acc) simp_all

text \<open>
  Claim C10. On an empty list \<open>double_onsets_correction\<close> raises (\<open>onsets_predicted[0]\<close>).
  On a non-empty list it returns the first predicted onset followed, in order, by the
  elements \<open>onsets_predicted[i+1]\<close> of exactly the positions \<open>i\<close> with
  \<open>onsets_predicted[i+1] - onsets_predicted[i] \<ge> correction\<close>: the difference is the one
  of neighbours in the input list, not the distance to the last onset kept.
\<close>

theorem double_onsets_correction_result:
  "double_onsets_correction [] gt_onsets correction = Inl IndexError \<and>
   double_onsets_correction (x # xs) gt_onsets correction =
     Inr (x # map (\<lambda>i. (x # xs) ! (i + 1))
                  (filter (\<lambda>i. correction \<le> (x # xs) ! (i + 1) - (x # xs) ! i) [0..<length xs]))"
proof -
  have "\<forall>i\<in>set [0..<length (x # xs) - 1]. i + 1 < length (x # xs)" by simp
  from correction_loop_eq [OF this, of correction "[x]"]
  show ?thesis
    by (simp add: double_onsets_correction_def enumerate_np_diff del: upt_Suc)
qed

theorem double_onsets_correction_result_witness:
  "double_onsets_correction [1, 1.01, 1.025, 2] [] 0.02 = Inr [1, 2]"
  using double_onsets_correction_result [of "[]" "0.02" 1 "[1.01, 1.025, 2]"]
  by (simp add: upt_rec)

end
